theory Spec2Isabelle
  imports Complex_Main "HOL-Library.Log_Nat"
begin

section \<open>Resampling irregular time series: an embedding of \<^verbatim>\<open>resample.py\<close>\<close>

text \<open>
  The program is one function, \<^verbatim>\<open>resample_dataframe\<close>, a pipeline of pandas and numpy
  calls. Each call is embedded as a HOL function of the same name that computes what the
  library call computes on the data this program hands to it (pandas 2.x, numpy, scipy);
  \<^verbatim>\<open>resample_dataframe\<close> composes them in the order of the source.

  Numbers. A finite Python float is the rational number it denotes. The products and
  quotients that the program forms on the time axis (\<^verbatim>\<open>time * precision\<close>,
  \<^verbatim>\<open>step * precision\<close>, the ticks of \<^verbatim>\<open>np.arange\<close>, \<^verbatim>\<open>time / precision\<close>) are rounded to
  the nearest binary64 value, ties to even, by \<open>fl\<close>; the exponent range is not bounded,
  so overflow to infinity and subnormal numbers are outside the embedding, and so are NaN
  and infinite times. The arithmetic on the value column (interpolation, rounding to four
  decimals) is exact rational arithmetic: the last-bit rounding errors of those operations
  are not part of the embedding. A 64-bit integer index label is an \<open>int\<close>.
\<close>

subsection \<open>Binary64 rounding\<close>

definition round_half_even :: "rat \<Rightarrow> int" where
  "round_half_even x =
     (let f = \<lfloor>x\<rfloor>; d = x - of_int f in
        if d < 1 / 2 then f
        else if 1 / 2 < d then f + 1
        else if even f then f else f + 1)"

text \<open>\<open>ilog2 x\<close> is the binary exponent of a positive rational: \<open>2 ^ ilog2 x \<le> x < 2 ^ (ilog2 x + 1)\<close>.\<close>

definition ilog2 :: "rat \<Rightarrow> int" where
  "ilog2 x =
     (let (p, q) = quotient_of x; n = bitlen p - bitlen q in
        if 2 powi n \<le> x then n else n - 1)"

text \<open>Round to 53 significant bits, nearest, ties to even.\<close>

definition fl :: "rat \<Rightarrow> rat" where
  "fl x =
     (if x = 0 then 0
      else let e = ilog2 \<bar>x\<bar> - 52 in
        sgn x * of_int (round_half_even (\<bar>x\<bar> / 2 powi e)) * 2 powi e)"

definition fmul :: "rat \<Rightarrow> rat \<Rightarrow> rat" where
  "fmul a b = fl (a * b)"

definition fdiv :: "rat \<Rightarrow> rat \<Rightarrow> rat" where
  "fdiv a b = fl (a / b)"

subsection \<open>Data\<close>

text \<open>
  The input frame has the columns \<^verbatim>\<open>time\<close> and \<^verbatim>\<open>value\<close>, both float, in file order.
  After \<^verbatim>\<open>set_index\<close> a frame is a list of (label, value) rows; a missing value (NaN) of
  the value column is \<open>None\<close>.
\<close>

type_synonym dataframe = "(rat \<times> rat) list"

type_synonym indexed = "(int \<times> rat) list"

type_synonym frame = "(rat \<times> rat option) list"

datatype error =
    DuplicateLabels
  | ZeroStep
  | InvalidMethod
  | NotMonotonic
  | NoDatetimeIndex
  | TooFewEntries
  | BackendError

text \<open>
  \<open>DuplicateLabels\<close>: \<^verbatim>\<open>ValueError: cannot reindex on an axis with duplicate labels\<close>.
  \<open>ZeroStep\<close>: \<^verbatim>\<open>np.arange\<close> with a zero step.
  \<open>InvalidMethod\<close>: \<^verbatim>\<open>ValueError: method must be one of [...]\<close>.
  \<open>NotMonotonic\<close>: krogh, piecewise_polynomial and pchip on an index that is not increasing.
  \<open>NoDatetimeIndex\<close>: method \<^verbatim>\<open>time\<close> on a numeric index.
  \<open>TooFewEntries\<close>: scipy's \<^verbatim>\<open>ValueError: x and y arrays must have at least 2 entries\<close>.
  \<open>BackendError\<close>: an error of a scipy interpolator that is not modelled here.
\<close>

text \<open>
  The scipy interpolators other than \<^verbatim>\<open>slinear\<close> are a parameter of the embedding: given
  the method name, the order, the observed points (index, value) and the indices to
  fill, the backend returns an error or one value (possibly NaN) for each index.
\<close>

type_synonym backend = "string \<Rightarrow> int \<Rightarrow> (rat \<times> rat) list \<Rightarrow> rat list \<Rightarrow> error + rat option list"

definition DECIMAL_POINTS :: nat where
  "DECIMAL_POINTS = 4"

definition precision :: rat where
  "precision = 10 ^ DECIMAL_POINTS"

subsection \<open>The pandas and numpy operations\<close>

text \<open>\<^verbatim>\<open>df.drop_duplicates('time', keep='last')\<close>: a row is dropped when a later row has the
  same float in the time column.\<close>

fun drop_duplicates :: "dataframe \<Rightarrow> dataframe" where
  "drop_duplicates [] = []"
| "drop_duplicates (r # rs) =
     (if fst r \<in> set (map fst rs) then drop_duplicates rs else r # drop_duplicates rs)"

text \<open>\<^verbatim>\<open>.astype(int)\<close> and Python's \<^verbatim>\<open>int()\<close> on a float: truncation toward zero.\<close>

definition astype_int :: "rat \<Rightarrow> int" where
  "astype_int x = (if 0 \<le> x then \<lfloor>x\<rfloor> else \<lceil>x\<rceil>)"

text \<open>\<^verbatim>\<open>df['time'].mul(precision).astype(int)\<close> on one time.\<close>

definition scale_time :: "rat \<Rightarrow> int" where
  "scale_time t = astype_int (fmul t precision)"

text \<open>Lines 33 and 34: the scaled time column becomes the index.\<close>

definition set_index :: "dataframe \<Rightarrow> indexed" where
  "set_index df = map (\<lambda>(t, v). (scale_time t, v)) df"

text \<open>\<^verbatim>\<open>np.arange(0, stop, step)\<close>: \<open>ceil(stop / step)\<close> elements, the \<open>i\<close>-th being
  \<open>i * step\<close>, both computed in floating point.\<close>

definition np_arange :: "rat \<Rightarrow> rat \<Rightarrow> error + rat list" where
  "np_arange stop stp =
     (if stp = 0 then Inl ZeroStep
      else Inr (map (\<lambda>i. fmul (of_nat i) stp) [0..<nat \<lceil>fdiv stop stp\<rceil>]))"

text \<open>\<^verbatim>\<open>Index.drop_duplicates(keep='last')\<close>.\<close>

fun index_drop_duplicates :: "rat list \<Rightarrow> rat list" where
  "index_drop_duplicates [] = []"
| "index_drop_duplicates (k # ks) =
     (if k \<in> set ks then index_drop_duplicates ks else k # index_drop_duplicates ks)"

text \<open>\<^verbatim>\<open>Index.union(other)\<close> with the default \<^verbatim>\<open>sort=None\<close>: an empty or equal
  operand returns the other one as it is; otherwise the labels of \<open>other\<close>
  that are missing from \<open>self\<close> are appended and the result is sorted.\<close>

definition index_union :: "rat list \<Rightarrow> rat list \<Rightarrow> rat list" where
  "index_union self other =
     (if other = [] \<or> self = other then self
      else if self = [] then other
      else sort (self @ filter (\<lambda>k. k \<notin> set self) other))"

text \<open>\<^verbatim>\<open>df.reindex(new_index)\<close>: refuses an index with duplicate labels; a label of
  \<open>new_index\<close> that the frame does not have gets a missing value.\<close>

definition reindex :: "indexed \<Rightarrow> rat list \<Rightarrow> error + frame" where
  "reindex df new_index =
     (if \<not> distinct (map fst df) \<and> new_index \<noteq> [] then Inl DuplicateLabels
      else Inr (map (\<lambda>k. (k, map_of (map (\<lambda>(i, v). (of_int i, v)) df) k)) new_index))"

text \<open>\<^verbatim>\<open>str.lower\<close> on ASCII, as \<^verbatim>\<open>DataFrame.interpolate\<close> applies it to the method name
  before it looks for a fill method.\<close>

definition lower_char :: "char \<Rightarrow> char" where
  "lower_char c =
     (let n = (of_char c :: nat) in if 65 \<le> n \<and> n \<le> 90 then char_of (n + 32) else c)"

definition lower :: "string \<Rightarrow> string" where
  "lower s = map lower_char s"

definition fillna_methods :: "string list" where
  "fillna_methods = [''ffill'', ''bfill'', ''pad'', ''backfill'']"

definition NP_METHODS :: "string list" where
  "NP_METHODS = [''linear'', ''time'', ''index'', ''values'']"

definition SP_METHODS :: "string list" where
  "SP_METHODS =
     [''nearest'', ''zero'', ''slinear'', ''quadratic'', ''cubic'', ''barycentric'',
      ''krogh'', ''spline'', ''polynomial'', ''from_derivatives'',
      ''piecewise_polynomial'', ''pchip'', ''akima'', ''cubicspline'']"

text \<open>\<^verbatim>\<open>df.ffill()\<close>: a missing value takes the last observed value before it, if any.\<close>

fun ffill_from :: "rat option \<Rightarrow> frame \<Rightarrow> frame" where
  "ffill_from prev [] = []"
| "ffill_from prev ((k, None) # rs) = (k, prev) # ffill_from prev rs"
| "ffill_from prev ((k, Some v) # rs) = (k, Some v) # ffill_from (Some v) rs"

definition ffill :: "frame \<Rightarrow> frame" where
  "ffill df = ffill_from None df"

text \<open>\<^verbatim>\<open>df.bfill()\<close>: a missing value takes the next observed value after it, if any.\<close>

fun bfill :: "frame \<Rightarrow> frame" where
  "bfill [] = []"
| "bfill ((k, Some v) # rs) = (k, Some v) # bfill rs"
| "bfill ((k, None) # rs) =
     (case bfill rs of
        [] \<Rightarrow> [(k, None)]
      | (k', v') # rs' \<Rightarrow> (k, v') # (k', v') # rs')"

text \<open>\<^verbatim>\<open>np.interp(x, xp, fp)\<close> on increasing \<open>xp\<close>: piecewise linear between the points,
  the first and the last value outside them. pandas calls it with at least one point.\<close>

fun np_interp :: "(rat \<times> rat) list \<Rightarrow> rat \<Rightarrow> rat" where
  "np_interp [] x = 0"
| "np_interp [(x0, y0)] x = y0"
| "np_interp ((x0, y0) # (x1, y1) # ps) x =
     (if x \<le> x0 then y0
      else if x < x1 then (y1 - y0) / (x1 - x0) * (x - x0) + y0
      else np_interp ((x1, y1) # ps) x)"

text \<open>\<^verbatim>\<open>scipy.interpolate.interp1d(x, y, kind='slinear', bounds_error=False)\<close> evaluated
  at \<open>new_x\<close>: the points are sorted, fewer than two points are refused, and an
  argument outside the points gives NaN.\<close>

definition interp1d_slinear :: "(rat \<times> rat) list \<Rightarrow> rat list \<Rightarrow> error + rat option list" where
  "interp1d_slinear pts new_x =
     (if length pts < 2 then Inl TooFewEntries
      else let ps = sort_key fst pts in
        Inr (map (\<lambda>x. if x < fst (hd ps) \<or> fst (last ps) < x then None
                       else Some (np_interp ps x)) new_x))"

definition interpolate_scipy_wrapper ::
    "backend \<Rightarrow> string \<Rightarrow> int \<Rightarrow> (rat \<times> rat) list \<Rightarrow> rat list \<Rightarrow> error + rat option list" where
  "interpolate_scipy_wrapper scipy method order pts new_x =
     (if method = ''slinear'' then interp1d_slinear pts new_x
      else scipy method order pts new_x)"

text \<open>\<^verbatim>\<open>get_interp_index\<close>: method \<^verbatim>\<open>linear\<close> ignores the index and uses the row
  positions; every other method uses the index labels.\<close>

definition get_interp_index :: "string \<Rightarrow> frame \<Rightarrow> rat list" where
  "get_interp_index method df =
     (if method = ''linear'' then map of_nat [0..<length df] else map fst df)"

text \<open>\<open>indices[valid], yvalues[valid]\<close> and \<open>indices[invalid]\<close>.\<close>

fun valid_points :: "rat list \<Rightarrow> frame \<Rightarrow> (rat \<times> rat) list" where
  "valid_points (x # xs) ((k, Some y) # rs) = (x, y) # valid_points xs rs"
| "valid_points (x # xs) ((k, None) # rs) = valid_points xs rs"
| "valid_points xs rs = []"

fun invalid_indices :: "rat list \<Rightarrow> frame \<Rightarrow> rat list" where
  "invalid_indices (x # xs) ((k, Some y) # rs) = invalid_indices xs rs"
| "invalid_indices (x # xs) ((k, None) # rs) = x # invalid_indices xs rs"
| "invalid_indices xs rs = []"

text \<open>\<open>yvalues[invalid] = new_y\<close>: the missing rows take the new values in order.\<close>

fun assign_invalid :: "frame \<Rightarrow> rat option list \<Rightarrow> frame" where
  "assign_invalid [] ys = []"
| "assign_invalid ((k, Some v) # rs) ys = (k, Some v) # assign_invalid rs ys"
| "assign_invalid ((k, None) # rs) [] = (k, None) # assign_invalid rs []"
| "assign_invalid ((k, None) # rs) (y # ys) = (k, y) # assign_invalid rs ys"

text \<open>\<open>yvalues[preserve_nans] = nan\<close> for the default \<^verbatim>\<open>limit_direction='forward'\<close> without
  a limit: the rows before the first observed value stay missing.\<close>

fun preserve_nans :: "frame \<Rightarrow> frame \<Rightarrow> frame" where
  "preserve_nans ((k, None) # rs) ((k', v') # rs') = (k', None) # preserve_nans rs rs'"
| "preserve_nans rs rs' = rs'"

text \<open>\<^verbatim>\<open>_interpolate_1d\<close>: nothing to do when no value or every value is observed;
  otherwise numpy's \<^verbatim>\<open>interp\<close> for the numpy methods and scipy for the others.\<close>

definition interpolate_1d ::
    "backend \<Rightarrow> string \<Rightarrow> int \<Rightarrow> rat list \<Rightarrow> frame \<Rightarrow> error + frame" where
  "interpolate_1d scipy method order indices df =
     (if list_all (\<lambda>(k, v). v = None) df \<or> list_all (\<lambda>(k, v). v \<noteq> None) df then Inr df
      else
        let pts = valid_points indices df; new_x = invalid_indices indices df in
        case (if method \<in> set NP_METHODS
              then Inr (map (\<lambda>x. Some (np_interp (sort_key fst pts) x)) new_x)
              else interpolate_scipy_wrapper scipy method order pts new_x) of
          Inl e \<Rightarrow> Inl e
        | Inr new_y \<Rightarrow> Inr (preserve_nans df (assign_invalid df new_y)))"

text \<open>\<^verbatim>\<open>df.interpolate(method=method, order=order)\<close>.\<close>

definition interpolate :: "backend \<Rightarrow> string \<Rightarrow> int \<Rightarrow> frame \<Rightarrow> error + frame" where
  "interpolate scipy method order df =
     (if df = [] then Inr df
      else if lower method \<in> set fillna_methods then
        Inr (if lower method \<in> {''ffill'', ''pad''} then ffill df else bfill df)
      else if method \<notin> set (NP_METHODS @ SP_METHODS) then Inl InvalidMethod
      else if method \<in> {''krogh'', ''piecewise_polynomial'', ''pchip''}
              \<and> \<not> sorted (map fst df) then Inl NotMonotonic
      else if method = ''time'' then Inl NoDatetimeIndex
      else interpolate_1d scipy method order (get_interp_index method df) df)"

text \<open>\<^verbatim>\<open>df.round(decimals)\<close>: numpy rounds half to even at the given decimal.\<close>

definition round_value :: "nat \<Rightarrow> rat \<Rightarrow> rat" where
  "round_value decimals v = of_int (round_half_even (v * 10 ^ decimals)) / 10 ^ decimals"

definition round_df :: "nat \<Rightarrow> frame \<Rightarrow> frame" where
  "round_df decimals df = map (\<lambda>(k, v). (k, map_option (round_value decimals) v)) df"

text \<open>\<^verbatim>\<open>df.index % m == 0\<close>: the remainder has the sign of \<open>m\<close>; a zero divisor
  gives NaN, which is not equal to 0.\<close>

definition index_mod :: "rat \<Rightarrow> int \<Rightarrow> rat option" where
  "index_mod k m = (if m = 0 then None else Some (k - of_int m * of_int \<lfloor>k / of_int m\<rfloor>))"

subsection \<open>The resampler\<close>

text \<open>Line 36, \<^verbatim>\<open>np.arange(0, max_value*precision, step*precision)\<close>.\<close>

definition regular_ticks :: "rat \<Rightarrow> rat \<Rightarrow> error + rat list" where
  "regular_ticks max_value step = np_arange (fmul max_value precision) (fmul step precision)"

text \<open>Line 37.\<close>

definition new_index :: "indexed \<Rightarrow> rat list \<Rightarrow> rat list" where
  "new_index df ticks = index_drop_duplicates (index_union (map (\<lambda>(i, v). of_int i) df) ticks)"

text \<open>Line 44, the rows whose label is a multiple of \<^verbatim>\<open>int(step*precision)\<close>.\<close>

definition keep_regular :: "rat \<Rightarrow> frame \<Rightarrow> frame" where
  "keep_regular step df =
     filter (\<lambda>(k, v). index_mod k (astype_int (fmul step precision)) = Some 0) df"

text \<open>Lines 29 to 44: the frame \<^verbatim>\<open>filtered_dataframe\<close>, still on the integer time axis.\<close>

definition filtered_dataframe ::
    "backend \<Rightarrow> dataframe \<Rightarrow> rat \<Rightarrow> rat \<Rightarrow> string \<Rightarrow> int \<Rightarrow> error + frame" where
  "filtered_dataframe scipy dataframe max_value step method order =
     (let df = set_index (drop_duplicates dataframe) in
      case regular_ticks max_value step of
        Inl e \<Rightarrow> Inl e
      | Inr ticks \<Rightarrow>
          (case reindex df (new_index df ticks) of
             Inl e \<Rightarrow> Inl e
           | Inr df1 \<Rightarrow>
               (case interpolate scipy method order df1 of
                  Inl e \<Rightarrow> Inl e
                | Inr df2 \<Rightarrow>
                    Inr (keep_regular step (round_df DECIMAL_POINTS (bfill (ffill df2)))))))"

text \<open>Lines 45 to 50: the index is divided by \<^verbatim>\<open>precision\<close> and the frame returned.\<close>

definition resample_dataframe ::
    "backend \<Rightarrow> dataframe \<Rightarrow> rat \<Rightarrow> rat \<Rightarrow> string \<Rightarrow> int \<Rightarrow> error + frame" where
  "resample_dataframe scipy dataframe max_value step method order =
     (case filtered_dataframe scipy dataframe max_value step method order of
        Inl e \<Rightarrow> Inl e
      | Inr df \<Rightarrow> Inr (map (\<lambda>(k, v). (fdiv k precision, v)) df))"

text \<open>A backend that refuses every call: the numpy methods and \<^verbatim>\<open>slinear\<close> never reach
  the backend, so the runs with those methods below do not depend on it.\<close>

definition no_backend :: backend where
  "no_backend method order pts new_x = Inl BackendError"


text \<open>
  The filled frame in closed form, for the statements below. \<open>fill_with g xs df\<close> gives
  every missing row the value \<open>g x\<close> at its interpolation index \<open>x\<close> and leaves the
  observed rows alone; \<open>np_fill xs df\<close> fills with \<^verbatim>\<open>np.interp\<close> through the observed
  points of \<open>df\<close>. \<open>missing_rows\<close> and \<open>constant_rows\<close> are runs of rows without a
  value and with one value.
\<close>

definition fill_with :: "(rat \<Rightarrow> rat option) \<Rightarrow> rat list \<Rightarrow> frame \<Rightarrow> frame" where
  "fill_with g xs df =
     map (\<lambda>(x, (k, v)). (k, case v of None \<Rightarrow> g x | Some y \<Rightarrow> Some y)) (zip xs df)"

definition np_fill_with :: "(rat \<times> rat) list \<Rightarrow> rat list \<Rightarrow> frame \<Rightarrow> frame" where
  "np_fill_with pts xs df = fill_with (\<lambda>x. Some (np_interp pts x)) xs df"


definition missing_rows :: "rat list \<Rightarrow> frame" where
  "missing_rows ks = map (\<lambda>k. (k, None)) ks"

definition constant_rows :: "rat \<Rightarrow> rat list \<Rightarrow> frame" where
  "constant_rows y ks = map (\<lambda>k. (k, Some y)) ks"

section \<open>Properties\<close>

subsection \<open>Facts about binary64 rounding\<close>

lemma round_half_even_ge_floor: "\<lfloor>x\<rfloor> \<le> round_half_even x"
  by (simp add: round_half_even_def Let_def)


lemma ilog2_le:
  assumes "0 < x"
  shows "2 powi (ilog2 x) \<le> x"
proof -
  obtain p q where pq: "quotient_of x = (p, q)" by (cases "quotient_of x")
  have q: "0 < q" using pq quotient_of_denom_pos by blast
  have x: "x = of_int p / of_int q" using pq quotient_of_div by blast
  have p: "0 < p" using assms q x by (simp add: zero_less_divide_iff)
  define n where "n = bitlen p - bitlen q"
  show ?thesis
  proof (cases "2 powi n \<le> x")
    case True
    then show ?thesis by (simp add: ilog2_def pq n_def)
  next
    case False
    then have il: "ilog2 x = n - 1" by (simp add: ilog2_def pq n_def)
    have bp: "(2::int) ^ nat (bitlen p - 1) \<le> p" using bitlen_bounds[OF p] by simp
    have bq: "q < (2::int) ^ nat (bitlen q)" using bitlen_bounds[OF q] by simp
    have bp1: "1 \<le> bitlen p" using p bitlen_nonneg[of p] bitlen_eq_zero_iff[of p] by linarith
    have bq0: "0 \<le> bitlen q" by (rule bitlen_nonneg)
    have p': "(2::rat) powi (bitlen p - 1) \<le> of_int p"
    proof -
      have "(2::rat) powi (bitlen p - 1) = 2 ^ nat (bitlen p - 1)"
        using bp1 by (simp add: power_int_def)
      also have "\<dots> = of_int (2 ^ nat (bitlen p - 1))" by simp
      also have "\<dots> \<le> of_int p" using bp by (simp only: of_int_le_iff)
      finally show ?thesis .
    qed
    have q': "of_int q \<le> (2::rat) powi (bitlen q)"
    proof -
      have "of_int q \<le> (of_int (2 ^ nat (bitlen q)) :: rat)" using bq by (simp only: of_int_le_iff)
      also have "\<dots> = 2 powi (bitlen q)" using bq0 by (simp add: power_int_def)
      finally show ?thesis .
    qed
    have "(2::rat) powi (n - 1) = 2 powi (bitlen p - 1) / 2 powi (bitlen q)"
      by (simp add: n_def power_int_diff)
    also have "\<dots> \<le> of_int p / 2 powi (bitlen q)"
      using p' by (simp add: divide_right_mono)
    also have "\<dots> \<le> of_int p / of_int q"
      using q' p q by (simp add: divide_left_mono)
    finally show ?thesis using il x by simp
  qed
qed

lemma fl_pos:
  assumes "0 < x"
  shows "0 < fl x"
proof -
  define e where "e = ilog2 \<bar>x\<bar> - 52"
  have pe: "(0::rat) < 2 powi e" by simp
  have "2 powi (ilog2 x) \<le> x" using assms by (rule ilog2_le)
  moreover have "(2::rat) powi e \<le> 2 powi (ilog2 x)"
    using assms by (intro power_int_increasing) (simp_all add: e_def)
  ultimately have "(2::rat) powi e \<le> x" by linarith
  then have "(1::rat) \<le> x / 2 powi e"
    using pe by (simp add: pos_le_divide_eq)
  then have "1 \<le> \<lfloor>x / 2 powi e\<rfloor>" by linarith
  then have "0 < round_half_even (x / 2 powi e)"
    using round_half_even_ge_floor[of "x / 2 powi e"] by linarith
  then show ?thesis
    using assms pe by (simp add: fl_def e_def Let_def)
qed






subsection \<open>The fixed-point time axis\<close>





subsection \<open>The combined index and the grid\<close>

lemma index_drop_duplicates_set [simp]: "set (index_drop_duplicates ks) = set ks"
  by (induction ks) auto



lemma index_union_set [simp]: "set (index_union a b) = set a \<union> set b"
  by (auto simp: index_union_def)

lemma new_index_set: "set (new_index df ticks) = (\<lambda>r. of_int (fst r)) ` set df \<union> set ticks"
  by (auto simp: new_index_def case_prod_unfold)


lemma precision_pos: "0 < precision"
  by (simp add: precision_def)

lemma scaled_step_pos: "0 < step \<Longrightarrow> 0 < fmul step precision"
  unfolding fmul_def by (intro fl_pos mult_pos_pos precision_pos)

lemma regular_ticks_Inr:
  assumes "0 < step"
  shows "regular_ticks max_value step =
    Inr (map (\<lambda>i. fmul (of_nat i) (fmul step precision))
          [0..<nat \<lceil>fdiv (fmul max_value precision) (fmul step precision)\<rceil>])"
  using scaled_step_pos[OF assms] by (simp add: regular_ticks_def np_arange_def)

lemma regular_ticks_nonempty:
  assumes "0 < step" "0 < max_value" "regular_ticks max_value step = Inr ticks"
  shows "ticks \<noteq> []"
proof -
  have "0 < fmul max_value precision"
    unfolding fmul_def using assms(2) by (intro fl_pos mult_pos_pos precision_pos)
  then have "0 < fdiv (fmul max_value precision) (fmul step precision)"
    unfolding fdiv_def using scaled_step_pos[OF assms(1)] by (intro fl_pos divide_pos_pos)
  then have "0 < \<lceil>fdiv (fmul max_value precision) (fmul step precision)\<rceil>"
    by (simp add: less_ceiling_iff)
  then show ?thesis
    using assms(3) regular_ticks_Inr[OF assms(1), of max_value] by auto
qed

lemma reindex_cases:
  "reindex df ni = Inl DuplicateLabels \<or>
   reindex df ni = Inr (map (\<lambda>k. (k, map_of (map (\<lambda>(i, v). (of_int i, v)) df) k)) ni)"
  by (simp add: reindex_def)

subsection \<open>Unsupported interpolation methods\<close>

text \<open>
  Claim C8: for every input, every positive \<open>max_value\<close> and \<open>step\<close>, and every method
  name that pandas does not support (neither a fill method, after lowering, nor one of
  the numpy and scipy interpolation methods), \<^verbatim>\<open>resample_dataframe\<close> returns an error:
  the \<^verbatim>\<open>ValueError\<close> of \<^verbatim>\<open>interpolate\<close> for the method, unless \<^verbatim>\<open>reindex\<close> has already
  raised for duplicate labels. No value is returned in its place.
\<close>

theorem invalid_method_raises:
  assumes "lower method \<notin> set fillna_methods"
    and "method \<notin> set (NP_METHODS @ SP_METHODS)"
    and "0 < max_value" and "0 < step"
  shows "resample_dataframe scipy dataframe max_value step method order = Inl InvalidMethod
       \<or> resample_dataframe scipy dataframe max_value step method order = Inl DuplicateLabels"
proof -
  obtain ticks where t: "regular_ticks max_value step = Inr ticks"
    using regular_ticks_Inr[OF assms(4)] by blast
  have ne: "ticks \<noteq> []" using regular_ticks_nonempty[OF assms(4) assms(3) t] .
  define df where "df = set_index (drop_duplicates dataframe)"
  have ni: "new_index df ticks \<noteq> []"
    using ne new_index_set[of df ticks] by (metis Un_empty set_empty)
  from reindex_cases[of df "new_index df ticks"] show ?thesis
  proof
    assume "reindex df (new_index df ticks) = Inl DuplicateLabels"
    then show ?thesis
      by (simp add: resample_dataframe_def filtered_dataframe_def t df_def Let_def)
  next
    assume r: "reindex df (new_index df ticks) =
      Inr (map (\<lambda>k. (k, map_of (map (\<lambda>(i, v). (of_int i, v)) df) k)) (new_index df ticks))"
    have "interpolate scipy method order
        (map (\<lambda>k. (k, map_of (map (\<lambda>(i, v). (of_int i, v)) df) k)) (new_index df ticks))
      = Inl InvalidMethod"
      using assms(1,2) ni by (simp add: interpolate_def)
    then show ?thesis
      using r by (simp add: resample_dataframe_def filtered_dataframe_def t df_def[symmetric] Let_def)
  qed
qed

theorem invalid_method_raises_witness:
  "lower ''lineer'' \<notin> set fillna_methods
   \<and> ''lineer'' \<notin> set (NP_METHODS @ SP_METHODS)
   \<and> (0::rat) < 4 \<and> (0::rat) < 1
   \<and> resample_dataframe no_backend [(1, 5)] 4 1 ''lineer'' 1 = Inl InvalidMethod"
proof -
  have a: "lower ''lineer'' \<notin> set fillna_methods"
    and b: "''lineer'' \<notin> set (NP_METHODS @ SP_METHODS)"
    by (simp_all add: lower_def lower_char_def fillna_methods_def NP_METHODS_def SP_METHODS_def)
  have c: "resample_dataframe no_backend [(1, 5)] 4 1 ''lineer'' 1 \<noteq> Inl DuplicateLabels"
    by code_simp
  from invalid_method_raises[OF a b, of 4 1 no_backend "[(1, 5)]" 1] a b c show ?thesis by simp
qed

subsection \<open>Observed values pass through the pipeline\<close>



















lemma round_df_labels [simp]: "map fst (round_df d df) = map fst df"
  by (simp add: round_df_def case_prod_unfold comp_def)





subsection \<open>Filling in closed form\<close>






























lemma fill_with_Cons_observed [simp]:
  "fill_with g (x # xs) ((k, Some y) # df) = (k, Some y) # fill_with g xs df"
  by (simp add: fill_with_def)

lemma np_fill_with_Cons_observed [simp]:
  "np_fill_with pts (x # xs) ((k, Some y) # df) = (k, Some y) # np_fill_with pts xs df"
  by (simp add: np_fill_with_def)

lemma missing_rows_labels [simp]: "map fst (missing_rows ks) = ks"
  by (simp add: missing_rows_def comp_def)

lemma constant_rows_labels [simp]: "map fst (constant_rows y ks) = ks"
  by (simp add: constant_rows_def comp_def)

lemma length_missing_rows [simp]: "length (missing_rows ks) = length ks"
  by (simp add: missing_rows_def)

lemma length_constant_rows [simp]: "length (constant_rows y ks) = length ks"
  by (simp add: constant_rows_def)








lemma length_get_interp_index [simp]: "length (get_interp_index method df) = length df"
  by (simp add: get_interp_index_def)

















subsection \<open>A single sample\<close>




subsection \<open>The empty input\<close>




lemma astype_int_of_nat [simp]: "astype_int (of_nat n) = int n"
  by (simp add: astype_int_def)













subsection \<open>Interpolation and the edges\<close>




















subsection \<open>Runs in which the code departs from the specification\<close>

text \<open>
  Claim C1 at the samples \<open>{(5, 1)}\<close> with \<open>max_value = 4\<close>, \<open>step = 1\<close>: line 44 keeps
  every label that is a multiple of the scaled step, so the label 50000 of the sample
  stays in the frame, and the returned series has a tick at 5, beyond \<open>max_value\<close>, next
  to the four ticks of the grid. In the same way the sample \<open>(-1, 7)\<close> leaves a tick at
  \<open>-1\<close>.
\<close>

theorem grid_leak_run:
  "regular_ticks 4 1 = Inr [0, 10000, 20000, 30000]
   \<and> resample_dataframe no_backend [(5, 1)] 4 1 ''linear'' 1 =
       Inr [(0, Some 1), (1, Some 1), (2, Some 1), (3, Some 1), (5, Some 1)]
   \<and> resample_dataframe no_backend [(- 1, 7)] 4 1 ''linear'' 1 =
       Inr [(- 1, Some 7), (0, Some 7), (1, Some 7), (2, Some 7), (3, Some 7)]"
  by code_simp

text \<open>
  Claim C2 at the samples \<open>{(1.00001, 5), (1.00002, 9)}\<close> with \<open>max_value = 4\<close>,
  \<open>step = 1\<close>: the two times are different floats, so \<^verbatim>\<open>drop_duplicates\<close> keeps both
  rows; both are scaled to the index 10000, and \<^verbatim>\<open>reindex\<close> raises on the duplicate
  label. Two samples with the same float time are reduced to the later one: the samples
  \<open>{(1, 5), (1, 9)}\<close> give 9 at tick 1.
\<close>

theorem near_duplicate_times_raise:
  "fl (100001 / 100000) \<noteq> fl (100002 / 100000)
   \<and> scale_time (fl (100001 / 100000)) = 10000
   \<and> scale_time (fl (100002 / 100000)) = 10000
   \<and> resample_dataframe no_backend
        [(fl (100001 / 100000), 5), (fl (100002 / 100000), 9)] 4 1 ''linear'' 1 =
      Inl DuplicateLabels
   \<and> resample_dataframe no_backend [(1, 5), (1, 9)] 4 1 ''linear'' 1 =
      Inr [(0, Some 9), (1, Some 9), (2, Some 9), (3, Some 9)]"
  by code_simp

text \<open>
  Claim C9 at a series that is regular on the grid of \<open>max_value = 0.95\<close>, \<open>step = 0.19\<close>,
  with the values 1, 2, 3, 4, 5 at the ticks 0, 0.19, 0.38, 0.57, 0.76: the sample at
  0.57 is scaled to 5699 and misses its tick 5700, which is then interpolated between
  its neighbours, so the returned value at tick 0.57 is 4.5 and not 4.
\<close>

theorem regrid_changes_values_run:
  "regular_ticks (fl (95 / 100)) (fl (19 / 100)) = Inr [0, 1900, 3800, 5700, 7600]
   \<and> map (\<lambda>g. fdiv g precision) [0, 1900, 3800, 5700, 7600] =
      [0, fl (19 / 100), fl (38 / 100), fl (57 / 100), fl (76 / 100)]
   \<and> resample_dataframe no_backend
        [(0, 1), (fl (19 / 100), 2), (fl (38 / 100), 3), (fl (57 / 100), 4), (fl (76 / 100), 5)]
        (fl (95 / 100)) (fl (19 / 100)) ''linear'' 1 =
      Inr [(0, Some 1), (fl (19 / 100), Some 2), (fl (38 / 100), Some 3),
           (fl (57 / 100), Some (9 / 2)), (fl (76 / 100), Some 5)]"
  by code_simp

end
